theory Spec2Isabelle
  imports Main
begin

section \<open>JavaScript values\<close>

text \<open>
  Response bodies and error payloads are parsed JSON, typed \<open>any\<close> (or cast) in the
  source, so the hooks are modelled on run-time values. \<open>JObj\<close> holds the own
  enumerable properties of an object in enumeration order, with distinct keys.
  A number is a double in JavaScript, and the hooks only test numbers and turn them into
  text: \<open>JNum t s\<close> is a number by these two observations, \<open>t\<close> telling whether it
  is truthy (neither zero nor NaN) and \<open>s\<close> being the text \<open>String\<close> gives for it.
  A string is the list of its code units, so \<open>length\<close> is JavaScript's \<open>.length\<close>.
\<close>

datatype jsval =
    JUndefined
  | JNull
  | JBool bool
  | JNum bool string
  | JStr string
  | JArr "jsval list"
  | JObj "(string \<times> jsval) list"

text \<open>ToBoolean: what \<open>||\<close>, \<open>!\<close> and \<open>if\<close> test.\<close>

fun truthy :: "jsval \<Rightarrow> bool" where
  "truthy JUndefined = False"
| "truthy JNull = False"
| "truthy (JBool b) = b"
| "truthy (JNum t s) = t"
| "truthy (JStr s) = (s \<noteq> [])"
| "truthy (JArr xs) = True"
| "truthy (JObj kvs) = True"

text \<open>\<open>a || b\<close>: the first operand when it is truthy, else the second.\<close>

definition jsOr :: "jsval \<Rightarrow> jsval \<Rightarrow> jsval" where
  "jsOr a b = (if truthy a then a else b)"

text \<open>\<open>Array.isArray(v)\<close> and \<open>typeof v === 'string'\<close>.\<close>

fun isArray :: "jsval \<Rightarrow> bool" where
  "isArray (JArr xs) = True"
| "isArray v = False"

fun isString :: "jsval \<Rightarrow> bool" where
  "isString (JStr s) = True"
| "isString v = False"

text \<open>
  \<open>v?.k\<close> for the property names the hooks read (none of them is a built-in property
  of strings, numbers, booleans or arrays): \<open>undefined\<close> unless \<open>v\<close> is an object
  that has the key.
\<close>

fun optProp :: "jsval \<Rightarrow> string \<Rightarrow> jsval" where
  "optProp (JObj kvs) k = (case map_of kvs k of None \<Rightarrow> JUndefined | Some v \<Rightarrow> v)"
| "optProp v k = JUndefined"

text \<open>\<open>v[0]\<close> on a value already known to be an array, and \<open>v?.[0]\<close> on any value.\<close>

fun first_elem :: "jsval \<Rightarrow> jsval" where
  "first_elem (JArr (x # xs)) = x"
| "first_elem v = JUndefined"

fun optIndex0 :: "jsval \<Rightarrow> jsval" where
  "optIndex0 (JArr (x # xs)) = x"
| "optIndex0 (JStr (c # cs)) = JStr [c]"
| "optIndex0 (JObj kvs) = (case map_of kvs ''0'' of None \<Rightarrow> JUndefined | Some v \<Rightarrow> v)"
| "optIndex0 v = JUndefined"

text \<open>\<open>Array.isArray(v) ? v[0] : v\<close>, the reading of a per-field error.\<close>

definition firstOrSelf :: "jsval \<Rightarrow> jsval" where
  "firstOrSelf v = (if isArray v then first_elem v else v)"

subsection \<open>Conversion to text\<close>

text \<open>The decimal digits of an array index, as property names have them.\<close>

fun digit_chars :: "nat \<Rightarrow> string" where
  "digit_chars n =
     (if n < 10 then [char_of (48 + n)]
      else digit_chars (n div 10) @ [char_of (48 + n mod 10)])"

fun joinStrings :: "string \<Rightarrow> string list \<Rightarrow> string" where
  "joinStrings sep [] = []"
| "joinStrings sep [s] = s"
| "joinStrings sep (s # t # ss) = s @ sep @ joinStrings sep (t # ss)"

text \<open>
  \<open>String(v)\<close>, as template literals and \<open>localStorage.setItem\<close> apply it;
  \<open>elemStrings\<close> gives the texts \<open>Array.prototype.join\<close> joins, where \<open>null\<close> and
  \<open>undefined\<close> elements are empty.
\<close>

fun toString :: "jsval \<Rightarrow> string"
  and elemStrings :: "jsval list \<Rightarrow> string list" where
  "toString JUndefined = ''undefined''"
| "toString JNull = ''null''"
| "toString (JBool b) = (if b then ''true'' else ''false'')"
| "toString (JNum t s) = s"
| "toString (JStr s) = s"
| "toString (JArr xs) = joinStrings '','' (elemStrings xs)"
| "toString (JObj kvs) = ''[object Object]''"
| "elemStrings [] = []"
| "elemStrings (x # xs) =
     (case x of JUndefined \<Rightarrow> [] | JNull \<Rightarrow> [] | _ \<Rightarrow> toString x) # elemStrings xs"

text \<open>\<open>xs.join(sep)\<close>.\<close>

definition join :: "string \<Rightarrow> jsval list \<Rightarrow> jsval" where
  "join sep xs = JStr (joinStrings sep (elemStrings xs))"

text \<open>\<open>Object.values(v)\<close>, \<open>Object.entries(v)\<close> and \<open>xs.flat()\<close>.\<close>

fun indexed :: "nat \<Rightarrow> jsval list \<Rightarrow> (string \<times> jsval) list" where
  "indexed i [] = []"
| "indexed i (x # xs) = (digit_chars i, x) # indexed (Suc i) xs"

fun objectEntries :: "jsval \<Rightarrow> (string \<times> jsval) list" where
  "objectEntries (JObj kvs) = kvs"
| "objectEntries (JArr xs) = indexed 0 xs"
| "objectEntries (JStr s) = indexed 0 (map (\<lambda>c. JStr [c]) s)"
| "objectEntries v = []"

definition objectValues :: "jsval \<Rightarrow> jsval list" where
  "objectValues v = map snd (objectEntries v)"

fun flat :: "jsval list \<Rightarrow> jsval list" where
  "flat [] = []"
| "flat (JArr ys # xs) = ys @ flat xs"
| "flat (x # xs) = x # flat xs"

section \<open>Errors and settled requests\<close>

datatype response = Response (status: int) (statusText: string) (data: jsval)

text \<open>
  What a \<open>catch\<close> block can receive: an Axios error (\<open>axios.isAxiosError\<close> holds) with
  its \<open>code\<close>, its \<open>response\<close> when the server answered and whether \<open>request\<close> is
  set, or another \<open>Error\<close> with its message.
\<close>

datatype exn =
    AxiosError (code: "string option") (response: "response option") (request: bool)
  | Error (message: string)

text \<open>A settled \<open>await\<close>: the \<open>data\<close> of the response, or the rejection.\<close>

datatype outcome = Resolved jsval | Rejected exn

text \<open>\<open>v.k\<close>: reading a property of \<open>null\<close> or \<open>undefined\<close> throws a TypeError.\<close>

definition typeError :: "jsval \<Rightarrow> string \<Rightarrow> exn" where
  "typeError v k =
     Error (''Cannot read properties of '' @ toString v @ '' (reading '' @ [CHR 0x27] @ k @ [CHR 0x27] @ '')'')"

definition getProp :: "jsval \<Rightarrow> string \<Rightarrow> exn + jsval" where
  "getProp v k =
     (if v = JNull \<or> v = JUndefined then Inl (typeError v k) else Inr (optProp v k))"

text \<open>\<open>new Error(v)\<close>.\<close>

definition newError :: "jsval \<Rightarrow> exn" where
  "newError v = Error (if v = JUndefined then [] else toString v)"

text \<open>\<open>axios.isAxiosError(err) && err.code === 'ERR_CANCELED'\<close>.\<close>

fun isCanceled :: "exn \<Rightarrow> bool" where
  "isCanceled (AxiosError c r q) = (c = Some ''ERR_CANCELED'')"
| "isCanceled (Error m) = False"

definition NETWORK_ERROR :: jsval where
  "NETWORK_ERROR = JStr ''Network error. Please check your connection.''"

section \<open>The list-fetching hooks\<close>

text \<open>
  Every list hook computes the list to store with the same expression
  \<open>Array.isArray(response.data) ? response.data : response.data.results || []\<close>.
\<close>

definition listData :: "jsval \<Rightarrow> exn + jsval" where
  "listData d =
     (if isArray d then Inr d
      else case getProp d ''results'' of
             Inl e \<Rightarrow> Inl e
           | Inr r \<Rightarrow> Inr (jsOr r (JArr [])))"

text \<open>What the \<open>try\<close> block of a fetch evaluates to once the request has settled.\<close>

definition tryList :: "outcome \<Rightarrow> exn + jsval" where
  "tryList out = (case out of Resolved d \<Rightarrow> listData d | Rejected e \<Rightarrow> Inl e)"

text \<open>
  The message built in the \<open>catch\<close> block of \<open>fetchMyTransactions\<close>, \<open>fetchSaccos\<close>,
  \<open>fetchProviders\<close> and \<open>fetchMemberships\<close>; they differ in the default text and in the
  text put before the status text.
\<close>

definition fetchErrorMessage :: "string \<Rightarrow> string \<Rightarrow> exn \<Rightarrow> jsval" where
  "fetchErrorMessage dflt prefix err =
     (case err of
        AxiosError c resp req \<Rightarrow>
          (case resp of
             Some r \<Rightarrow>
               jsOr (jsOr (optProp (data r) ''message'') (optProp (data r) ''error''))
                    (JStr (prefix @ statusText r))
           | None \<Rightarrow> if req then NETWORK_ERROR else JStr dflt)
      | Error m \<Rightarrow> JStr m)"

text \<open>
  An \<open>AbortController\<close> is identified by a number; \<open>abort()\<close> adds it to the aborted
  ones, whose pending request Axios then rejects with code \<open>ERR_CANCELED\<close>.
\<close>

definition newAbortController :: "nat option \<Rightarrow> nat" where
  "newAbortController cur = (case cur of None \<Rightarrow> 0 | Some c \<Rightarrow> Suc c)"

definition abortCurrent :: "nat option \<Rightarrow> nat list \<Rightarrow> nat list" where
  "abortCurrent cur ab = (case cur of None \<Rightarrow> ab | Some c \<Rightarrow> c # ab)"

subsection \<open>useTransactions\<close>

record UseTransactions =
  transactions :: jsval
  isLoading :: bool
  error :: jsval
  isCreating :: bool
  createError :: jsval
  abortControllerRef :: "nat option"
  aborted :: "nat list"

definition useTransactions :: UseTransactions where
  "useTransactions =
     \<lparr>transactions = JArr [], isLoading = False, error = JNull, isCreating = False,
      createError = JNull, abortControllerRef = None, aborted = []\<rparr>"

text \<open>\<open>fetchMyTransactions\<close> up to its \<open>await\<close>, and from the settled request on.\<close>

definition fetchMyTransactions_call :: "UseTransactions \<Rightarrow> UseTransactions" where
  "fetchMyTransactions_call s =
     s\<lparr>aborted := abortCurrent (abortControllerRef s) (aborted s),
       abortControllerRef := Some (newAbortController (abortControllerRef s)),
       isLoading := True,
       error := JNull\<rparr>"

definition fetchMyTransactions_settle :: "outcome \<Rightarrow> UseTransactions \<Rightarrow> UseTransactions" where
  "fetchMyTransactions_settle out s =
     (let s' =
        (case tryList out of
           Inr transactionsData \<Rightarrow> s\<lparr>transactions := transactionsData, error := JNull\<rparr>
         | Inl err \<Rightarrow>
             if isCanceled err then s
             else s\<lparr>error := fetchErrorMessage ''Failed to fetch transactions.''
                                  ''Failed to fetch transactions: '' err,
                     transactions := JArr []\<rparr>)
      in s'\<lparr>isLoading := False\<rparr>)"

text \<open>
  The message built in the \<open>catch\<close> block of \<open>createTransaction\<close>, \<open>applyForLoan\<close> and
  \<open>createProfile\<close>.
\<close>

definition createErrorMessage :: "string \<Rightarrow> string \<Rightarrow> exn \<Rightarrow> jsval" where
  "createErrorMessage dflt prefix err =
     (case err of
        AxiosError c resp req \<Rightarrow>
          (case resp of
             Some r \<Rightarrow>
               jsOr (jsOr (jsOr (jsOr (optProp (data r) ''message'') (optProp (data r) ''error''))
                                (optProp (data r) ''detail''))
                          (join '', '' (flat (objectValues (jsOr (data r) (JObj []))))))
                    (JStr (prefix @ statusText r))
           | None \<Rightarrow> if req then NETWORK_ERROR else JStr dflt)
      | Error m \<Rightarrow> JStr m)"

text \<open>
  The updater \<open>(prev) => [response.data, ...prev]\<close>. The spread takes the elements of an
  array and the characters of a string; on any other value it throws (\<open>None\<close>). React 18
  runs the updater when it renders, after the hook function has returned, together with
  the other updates made since the \<open>await\<close>: when the updater throws, the render
  fails and none of these updates is committed.
\<close>

fun prepend :: "jsval \<Rightarrow> jsval \<Rightarrow> jsval option" where
  "prepend d (JArr prev) = Some (JArr (d # prev))"
| "prepend d (JStr cs) = Some (JArr (d # map (\<lambda>c. JStr [c]) cs))"
| "prepend d v = None"

definition createTransaction_call :: "UseTransactions \<Rightarrow> UseTransactions" where
  "createTransaction_call s = s\<lparr>isCreating := True, createError := JNull\<rparr>"

definition createTransaction_settle ::
    "outcome \<Rightarrow> UseTransactions \<Rightarrow> (exn + jsval) \<times> UseTransactions" where
  "createTransaction_settle out s =
     (case out of
        Resolved d \<Rightarrow>
          (case prepend d (transactions s) of
             Some updated \<Rightarrow>
               (Inr d, s\<lparr>transactions := updated, createError := JNull, isCreating := False\<rparr>)
           | None \<Rightarrow> (Inr d, s))
      | Rejected err \<Rightarrow>
          (Inl err, s\<lparr>createError := createErrorMessage ''Failed to create transaction.''
                                         ''Failed to create transaction: '' err,
                      isCreating := False\<rparr>))"

subsection \<open>useServices\<close>

record UseServices =
  services :: jsval
  isLoading :: bool
  isError :: bool
  abortControllerRef :: "nat option"
  aborted :: "nat list"

definition useServices :: UseServices where
  "useServices =
     \<lparr>services = JArr [], isLoading = False, isError = False,
      abortControllerRef = None, aborted = []\<rparr>"

definition fetchServices_call :: "UseServices \<Rightarrow> UseServices" where
  "fetchServices_call s =
     s\<lparr>aborted := abortCurrent (abortControllerRef s) (aborted s),
       abortControllerRef := Some (newAbortController (abortControllerRef s)),
       isLoading := True,
       isError := False\<rparr>"

definition fetchServices_settle :: "outcome \<Rightarrow> UseServices \<Rightarrow> UseServices" where
  "fetchServices_settle out s =
     (let s' =
        (case tryList out of
           Inr servicesData \<Rightarrow> s\<lparr>services := servicesData, isError := False\<rparr>
         | Inl err \<Rightarrow>
             if isCanceled err then s
             else s\<lparr>isError := True, services := JArr []\<rparr>)
      in s'\<lparr>isLoading := False\<rparr>)"

subsection \<open>useSaccoDirectory\<close>

record UseSaccoDirectory =
  saccos :: jsval
  isLoading :: bool
  error :: jsval
  abortControllerRef :: "nat option"
  aborted :: "nat list"

definition useSaccoDirectory :: UseSaccoDirectory where
  "useSaccoDirectory =
     \<lparr>saccos = JArr [], isLoading = False, error = JNull,
      abortControllerRef = None, aborted = []\<rparr>"

definition fetchSaccos_call :: "UseSaccoDirectory \<Rightarrow> UseSaccoDirectory" where
  "fetchSaccos_call s =
     s\<lparr>aborted := abortCurrent (abortControllerRef s) (aborted s),
       abortControllerRef := Some (newAbortController (abortControllerRef s)),
       isLoading := True,
       error := JNull\<rparr>"

definition fetchSaccos_settle :: "outcome \<Rightarrow> UseSaccoDirectory \<Rightarrow> UseSaccoDirectory" where
  "fetchSaccos_settle out s =
     (let s' =
        (case tryList out of
           Inr saccosData \<Rightarrow> s\<lparr>saccos := saccosData, error := JNull\<rparr>
         | Inl err \<Rightarrow>
             if isCanceled err then s
             else s\<lparr>error := fetchErrorMessage ''Failed to fetch sacco directory.''
                                  ''Failed to fetch saccos: '' err,
                     saccos := JArr []\<rparr>)
      in s'\<lparr>isLoading := False\<rparr>)"

subsection \<open>usePaymentProviders\<close>

record UsePaymentProviders =
  providers :: jsval
  isLoading :: bool
  error :: jsval
  abortControllerRef :: "nat option"
  aborted :: "nat list"

definition usePaymentProviders :: UsePaymentProviders where
  "usePaymentProviders =
     \<lparr>providers = JArr [], isLoading = False, error = JNull,
      abortControllerRef = None, aborted = []\<rparr>"

definition fetchProviders_call :: "UsePaymentProviders \<Rightarrow> UsePaymentProviders" where
  "fetchProviders_call s =
     s\<lparr>aborted := abortCurrent (abortControllerRef s) (aborted s),
       abortControllerRef := Some (newAbortController (abortControllerRef s)),
       isLoading := True,
       error := JNull\<rparr>"

definition fetchProviders_settle :: "outcome \<Rightarrow> UsePaymentProviders \<Rightarrow> UsePaymentProviders" where
  "fetchProviders_settle out s =
     (let s' =
        (case tryList out of
           Inr providersData \<Rightarrow> s\<lparr>providers := providersData, error := JNull\<rparr>
         | Inl err \<Rightarrow>
             if isCanceled err then s
             else s\<lparr>error := fetchErrorMessage ''Failed to fetch payment providers.''
                                  ''Failed to fetch providers: '' err,
                     providers := JArr []\<rparr>)
      in s'\<lparr>isLoading := False\<rparr>)"

subsection \<open>useMemberships\<close>

record UseMemberships =
  memberships :: jsval
  isLoading :: bool
  error :: jsval
  abortControllerRef :: "nat option"
  aborted :: "nat list"

definition useMemberships :: UseMemberships where
  "useMemberships =
     \<lparr>memberships = JArr [], isLoading = False, error = JNull,
      abortControllerRef = None, aborted = []\<rparr>"

definition fetchMemberships_call :: "UseMemberships \<Rightarrow> UseMemberships" where
  "fetchMemberships_call s =
     s\<lparr>aborted := abortCurrent (abortControllerRef s) (aborted s),
       abortControllerRef := Some (newAbortController (abortControllerRef s)),
       isLoading := True,
       error := JNull\<rparr>"

definition fetchMemberships_settle :: "outcome \<Rightarrow> UseMemberships \<Rightarrow> UseMemberships" where
  "fetchMemberships_settle out s =
     (let s' =
        (case tryList out of
           Inr membershipsData \<Rightarrow> s\<lparr>memberships := membershipsData, error := JNull\<rparr>
         | Inl err \<Rightarrow>
             if isCanceled err then s
             else s\<lparr>error := fetchErrorMessage ''Failed to fetch memberships.''
                                  ''Failed to fetch memberships: '' err,
                     memberships := JArr []\<rparr>)
      in s'\<lparr>isLoading := False\<rparr>)"

subsection \<open>useLoans\<close>

record UseLoans =
  loans :: jsval
  isLoading :: bool
  isError :: bool
  isApplying :: bool
  applyError :: jsval
  abortControllerRef :: "nat option"
  aborted :: "nat list"

definition useLoans :: UseLoans where
  "useLoans =
     \<lparr>loans = JArr [], isLoading = False, isError = False, isApplying = False,
      applyError = JNull, abortControllerRef = None, aborted = []\<rparr>"

definition fetchMyLoans_call :: "UseLoans \<Rightarrow> UseLoans" where
  "fetchMyLoans_call s =
     s\<lparr>aborted := abortCurrent (abortControllerRef s) (aborted s),
       abortControllerRef := Some (newAbortController (abortControllerRef s)),
       isLoading := True,
       isError := False\<rparr>"

definition fetchMyLoans_settle :: "outcome \<Rightarrow> UseLoans \<Rightarrow> UseLoans" where
  "fetchMyLoans_settle out s =
     (let s' =
        (case tryList out of
           Inr loansData \<Rightarrow> s\<lparr>loans := loansData, isError := False\<rparr>
         | Inl err \<Rightarrow>
             if isCanceled err then s
             else s\<lparr>isError := True, loans := JArr []\<rparr>)
      in s'\<lparr>isLoading := False\<rparr>)"

definition applyForLoan_call :: "UseLoans \<Rightarrow> UseLoans" where
  "applyForLoan_call s = s\<lparr>isApplying := True, applyError := JNull\<rparr>"

definition applyForLoan_settle :: "outcome \<Rightarrow> UseLoans \<Rightarrow> (exn + jsval) \<times> UseLoans" where
  "applyForLoan_settle out s =
     (case out of
        Resolved d \<Rightarrow>
          (case prepend d (loans s) of
             Some updated \<Rightarrow>
               (Inr d, s\<lparr>loans := updated, applyError := JNull, isApplying := False\<rparr>)
           | None \<Rightarrow> (Inr d, s))
      | Rejected err \<Rightarrow>
          (Inl err, s\<lparr>applyError := createErrorMessage ''Failed to apply for loan.''
                                        ''Failed to apply for loan: '' err,
                      isApplying := False\<rparr>))"

subsection \<open>useProfile\<close>

record UseProfile =
  profile :: jsval
  isLoading :: bool
  isUpdating :: bool
  isCreating :: bool
  error :: jsval
  updateError :: jsval
  createError :: jsval

definition useProfile :: UseProfile where
  "useProfile =
     \<lparr>profile = JNull, isLoading = False, isUpdating = False, isCreating = False,
      error = JNull, updateError = JNull, createError = JNull\<rparr>"

datatype toast = Toast (title: string) (description: jsval) (variant: string)

definition fetchProfile_errorMessage :: "exn \<Rightarrow> jsval" where
  "fetchProfile_errorMessage err =
     (case err of
        AxiosError c resp req \<Rightarrow>
          (case resp of
             Some r \<Rightarrow>
               jsOr (jsOr (jsOr (optProp (data r) ''message'') (optProp (data r) ''error''))
                          (optProp (data r) ''detail''))
                    (JStr (''Failed to fetch profile: '' @ statusText r))
           | None \<Rightarrow> if req then NETWORK_ERROR else JStr ''Failed to fetch profile.'')
      | Error m \<Rightarrow> JStr m)"

definition fetchProfile_call :: "UseProfile \<Rightarrow> UseProfile" where
  "fetchProfile_call s = s\<lparr>isLoading := True, error := JNull\<rparr>"

definition fetchProfile_settle :: "outcome \<Rightarrow> UseProfile \<Rightarrow> UseProfile" where
  "fetchProfile_settle out s =
     (let s' =
        (case out of
           Resolved d \<Rightarrow> s\<lparr>profile := d, error := JNull\<rparr>
         | Rejected err \<Rightarrow>
             (case err of
                AxiosError c (Some r) req \<Rightarrow>
                  if status r = 404 then s\<lparr>profile := JNull, error := JNull\<rparr>
                  else s\<lparr>error := fetchProfile_errorMessage err, profile := JNull\<rparr>
              | _ \<Rightarrow> s\<lparr>error := fetchProfile_errorMessage err, profile := JNull\<rparr>))
      in s'\<lparr>isLoading := False\<rparr>)"

text \<open>The \<open>key: first error\<close> texts \<open>updateProfile\<close> joins for an unrecognised payload.\<close>

definition validationErrors :: "jsval \<Rightarrow> jsval" where
  "validationErrors responseData =
     join '', ''
       (map (\<lambda>(key, value). JStr (key @ '': '' @ toString (firstOrSelf value)))
            (objectEntries (jsOr responseData (JObj []))))"

definition updateProfile_errorMessage :: "exn \<Rightarrow> jsval" where
  "updateProfile_errorMessage err =
     (case err of
        AxiosError c resp req \<Rightarrow>
          (case resp of
             Some r \<Rightarrow>
               (let responseData = data r in
                if truthy (optProp responseData ''phone_number'')
                  then firstOrSelf (optProp responseData ''phone_number'')
                else if truthy (optProp responseData ''bio'')
                  then firstOrSelf (optProp responseData ''bio'')
                else if truthy (optProp responseData ''non_field_errors'')
                  then firstOrSelf (optProp responseData ''non_field_errors'')
                else if truthy (optProp responseData ''detail'')
                  then optProp responseData ''detail''
                else if truthy (optProp responseData ''message'')
                  then optProp responseData ''message''
                else if truthy (optProp responseData ''error'')
                  then optProp responseData ''error''
                else if isString responseData then responseData
                else if truthy (validationErrors responseData)
                  then validationErrors responseData
                else JStr (''Failed to update profile: '' @
                           (if statusText r \<noteq> [] then statusText r else ''Unknown error'')))
           | None \<Rightarrow> if req then NETWORK_ERROR else JStr ''Failed to update profile.'')
      | Error m \<Rightarrow> JStr m)"

definition updateProfile_call :: "UseProfile \<Rightarrow> UseProfile" where
  "updateProfile_call s = s\<lparr>isUpdating := True, updateError := JNull\<rparr>"

definition updateProfile_settle ::
    "outcome \<Rightarrow> UseProfile \<Rightarrow> (exn + jsval) \<times> UseProfile \<times> toast list" where
  "updateProfile_settle out s =
     (let (res, s', toasts) =
        (case out of
           Resolved d \<Rightarrow>
             (Inr d, s\<lparr>profile := d, updateError := JNull\<rparr>,
              [Toast ''Success'' (JStr ''Profile updated successfully'') ''success''])
         | Rejected err \<Rightarrow>
             (Inl err, s\<lparr>updateError := updateProfile_errorMessage err\<rparr>,
              [Toast ''Error'' (updateProfile_errorMessage err) ''error'']))
      in (res, s'\<lparr>isUpdating := False\<rparr>, toasts))"

definition createProfile_call :: "UseProfile \<Rightarrow> UseProfile" where
  "createProfile_call s = s\<lparr>isCreating := True, createError := JNull\<rparr>"

definition createProfile_settle :: "outcome \<Rightarrow> UseProfile \<Rightarrow> (exn + jsval) \<times> UseProfile" where
  "createProfile_settle out s =
     (let (res, s') =
        (case out of
           Resolved d \<Rightarrow> (Inr d, s\<lparr>profile := d, createError := JNull\<rparr>)
         | Rejected err \<Rightarrow>
             (Inl err, s\<lparr>createError := createErrorMessage ''Failed to create profile.''
                                            ''Failed to create profile: '' err\<rparr>))
      in (res, s'\<lparr>isCreating := False\<rparr>))"

section \<open>The shared HTTP client\<close>

type_synonym storage = "string \<rightharpoonup> string"

definition ACCESS_TOKEN_KEY :: string where
  "ACCESS_TOKEN_KEY = ''accessToken''"

definition REFRESH_TOKEN_KEY :: string where
  "REFRESH_TOKEN_KEY = ''refreshToken''"

definition removeItem :: "string \<Rightarrow> storage \<Rightarrow> storage" where
  "removeItem k ls = ls(k := None)"

definition setItem :: "string \<Rightarrow> jsval \<Rightarrow> storage \<Rightarrow> storage" where
  "setItem k v ls = ls(k \<mapsto> toString v)"

text \<open>
  The request interceptor adds the bearer header when a non-empty token is stored; the
  headers are an association list, a later entry for a name replacing an earlier one.
\<close>

definition requestInterceptor ::
    "storage \<Rightarrow> (string \<times> string) list \<Rightarrow> (string \<times> string) list" where
  "requestInterceptor ls hdrs =
     (case ls ''accessToken'' of
        None \<Rightarrow> hdrs
      | Some token \<Rightarrow>
          if token \<noteq> [] then (''Authorization'', ''Bearer '' @ token) # hdrs else hdrs)"

text \<open>\<open>error.response?.status === 401\<close>.\<close>

fun isUnauthorized :: "exn \<Rightarrow> bool" where
  "isUnauthorized (AxiosError c (Some r) q) = (status r = 401)"
| "isUnauthorized e = False"

text \<open>
  The rejection handler of the response interceptor: the storage afterwards and the
  value of the rejected promise it returns.
\<close>

definition responseInterceptor_rejected :: "exn \<Rightarrow> storage \<Rightarrow> outcome \<times> storage" where
  "responseInterceptor_rejected err ls =
     (if isUnauthorized err
      then (Rejected err, removeItem ''refreshToken'' (removeItem ''accessToken'' ls))
      else (Rejected err, ls))"

definition responseInterceptor_fulfilled :: "jsval \<Rightarrow> storage \<Rightarrow> outcome \<times> storage" where
  "responseInterceptor_fulfilled d ls = (Resolved d, ls)"

section \<open>useAuth\<close>

record UseAuth =
  isLoading :: bool
  isChangingPassword :: bool
  error :: jsval
  passwordChangeError :: jsval
  token :: jsval
  isAuthenticated :: bool

definition useAuth :: UseAuth where
  "useAuth =
     \<lparr>isLoading = False, isChangingPassword = False, error = JNull,
      passwordChangeError = JNull, token = JNull, isAuthenticated = False\<rparr>"

text \<open>The effect run on mount: a stored, non-empty access token authenticates.\<close>

definition useAuth_mount :: "storage \<Rightarrow> UseAuth \<Rightarrow> UseAuth" where
  "useAuth_mount ls s =
     (case ls ACCESS_TOKEN_KEY of
        None \<Rightarrow> s
      | Some storedToken \<Rightarrow>
          if storedToken \<noteq> [] then s\<lparr>token := JStr storedToken, isAuthenticated := True\<rparr>
          else s)"

text \<open>A request made with \<open>axios.post\<close> directly: address, body and headers.\<close>

datatype request =
  Post (url: string) (body: "(string \<times> jsval) list") (headers: "(string \<times> string) list")

definition API_BASE_URL :: string where
  "API_BASE_URL = ''https://saccosphere-atze.onrender.com/api''"

definition LOGIN_ENDPOINT :: string where
  "LOGIN_ENDPOINT = API_BASE_URL @ ''/accounts/login/''"

definition REGISTER_ENDPOINT :: string where
  "REGISTER_ENDPOINT = API_BASE_URL @ ''/accounts/register/''"

definition CHANGE_PASSWORD_ENDPOINT :: string where
  "CHANGE_PASSWORD_ENDPOINT = API_BASE_URL @ ''/accounts/change-password/''"

record LoginCredentials =
  email :: string
  password :: string

record RegisterCredentials = LoginCredentials +
  first_name :: string
  last_name :: string

record ChangePasswordData =
  old_password :: string
  new_password :: string
  confirm_password :: string

text \<open>
  The two token expressions of \<open>login\<close> and \<open>registerUser\<close>:
  \<open>data.access || data.token || data.tokens?.access\<close> and
  \<open>data.refresh || data.tokens?.refresh\<close>. Reading \<open>data.access\<close> throws when the
  body is \<open>null\<close>.
\<close>

definition accessTokenOf :: "jsval \<Rightarrow> jsval" where
  "accessTokenOf d =
     jsOr (jsOr (optProp d ''access'') (optProp d ''token''))
          (optProp (optProp d ''tokens'') ''access'')"

definition refreshTokenOf :: "jsval \<Rightarrow> jsval" where
  "refreshTokenOf d = jsOr (optProp d ''refresh'') (optProp (optProp d ''tokens'') ''refresh'')"

definition extractTokens :: "jsval \<Rightarrow> exn + jsval \<times> jsval" where
  "extractTokens d =
     (case getProp d ''access'' of
        Inl e \<Rightarrow> Inl e
      | Inr a \<Rightarrow> Inr (accessTokenOf d, refreshTokenOf d))"

text \<open>Saving the tokens: the refresh token only when it is truthy.\<close>

definition saveTokens :: "jsval \<Rightarrow> jsval \<Rightarrow> storage \<Rightarrow> storage" where
  "saveTokens accessToken refreshToken ls =
     (let ls' = setItem ACCESS_TOKEN_KEY accessToken ls
      in if truthy refreshToken then setItem REFRESH_TOKEN_KEY refreshToken ls' else ls')"

subsection \<open>login\<close>

definition login_errorMessage :: "exn \<Rightarrow> jsval" where
  "login_errorMessage err =
     (case err of
        AxiosError c resp req \<Rightarrow>
          (case resp of
             Some r \<Rightarrow>
               (let responseData = data r in
                if truthy (optProp responseData ''detail'') then optProp responseData ''detail''
                else if truthy (optProp responseData ''message'')
                  then optProp responseData ''message''
                else if truthy (optProp responseData ''error'') then optProp responseData ''error''
                else if truthy (optProp responseData ''non_field_errors'')
                  then firstOrSelf (optProp responseData ''non_field_errors'')
                else if isString responseData then responseData
                else if truthy (optProp responseData ''email'')
                  then firstOrSelf (optProp responseData ''email'')
                else if truthy (optProp responseData ''password'')
                  then firstOrSelf (optProp responseData ''password'')
                else if status r = 401 then JStr ''Invalid credentials''
                else if status r = 400
                  then JStr ''Invalid request. Please check your credentials.''
                else JStr (''Login failed: '' @
                           (if statusText r \<noteq> [] then statusText r else ''Unknown error'')))
           | None \<Rightarrow>
               if req then NETWORK_ERROR else JStr ''An error occurred. Please try again.'')
      | Error m \<Rightarrow> JStr m)"

definition login_call :: "LoginCredentials \<Rightarrow> UseAuth \<Rightarrow> request \<times> UseAuth" where
  "login_call credentials s =
     (Post LOGIN_ENDPOINT
        [(''email'', JStr (email credentials)), (''password'', JStr (password credentials))]
        [(''Content-Type'', ''application/json'')],
      s\<lparr>isLoading := True, error := JNull\<rparr>)"

text \<open>What the \<open>try\<close> block of \<open>login\<close> reaches: the two tokens, or what it throws.\<close>

definition login_try :: "outcome \<Rightarrow> exn + jsval \<times> jsval" where
  "login_try out =
     (case out of
        Rejected e \<Rightarrow> Inl e
      | Resolved d \<Rightarrow>
          (case extractTokens d of
             Inl e \<Rightarrow> Inl e
           | Inr (accessToken, refreshToken) \<Rightarrow>
               if \<not> truthy accessToken then Inl (Error ''No access token received from server'')
               else Inr (accessToken, refreshToken)))"

definition login_settle ::
    "outcome \<Rightarrow> UseAuth \<Rightarrow> storage \<Rightarrow> (exn + unit) \<times> UseAuth \<times> storage" where
  "login_settle out s ls =
     (let (res, s', ls') =
        (case login_try out of
           Inr (accessToken, refreshToken) \<Rightarrow>
             (Inr (),
              s\<lparr>token := accessToken, isAuthenticated := True, error := JNull\<rparr>,
              saveTokens accessToken refreshToken ls)
         | Inl err \<Rightarrow>
             (Inl (newError (login_errorMessage err)),
              s\<lparr>error := login_errorMessage err, isAuthenticated := False, token := JNull\<rparr>,
              removeItem REFRESH_TOKEN_KEY (removeItem ACCESS_TOKEN_KEY ls)))
      in (res, s'\<lparr>isLoading := False\<rparr>, ls'))"

subsection \<open>registerUser\<close>


definition registerUser_call :: "RegisterCredentials \<Rightarrow> UseAuth \<Rightarrow> request \<times> UseAuth" where
  "registerUser_call d s =
     (Post REGISTER_ENDPOINT
        [(''email'', JStr (email d)), (''password'', JStr (password d)),
         (''first_name'', JStr (first_name d)), (''last_name'', JStr (last_name d))]
        [(''Content-Type'', ''application/json'')],
      s\<lparr>isLoading := True, error := JNull\<rparr>)"



subsection \<open>changePassword\<close>

text \<open>
  Where a hook function stands when it first stops: it has thrown, or it awaits the
  request it has just made. \<open>requests\<close> lists the network calls made up to there.
\<close>

datatype step = Threw exn | Awaiting request

fun requests :: "step \<Rightarrow> request list" where
  "requests (Threw e) = []"
| "requests (Awaiting r) = [r]"

definition changePassword_errorMessage :: "exn \<Rightarrow> jsval" where
  "changePassword_errorMessage err =
     (case err of
        AxiosError c resp req \<Rightarrow>
          (case resp of
             Some r \<Rightarrow>
               jsOr (jsOr (jsOr (jsOr (jsOr (jsOr
                 (optProp (data r) ''message'')
                 (optProp (data r) ''error''))
                 (optProp (data r) ''detail''))
                 (optIndex0 (optProp (data r) ''old_password'')))
                 (optIndex0 (optProp (data r) ''new_password'')))
                 (join '', '' (flat (objectValues (jsOr (data r) (JObj []))))))
                 (JStr (''Password change failed: '' @ statusText r))
           | None \<Rightarrow>
               if req then NETWORK_ERROR
               else JStr ''Failed to change password. Please try again.'')
      | Error m \<Rightarrow> JStr m)"

definition changePassword_call ::
    "ChangePasswordData \<Rightarrow> UseAuth \<Rightarrow> storage \<Rightarrow> step \<times> UseAuth" where
  "changePassword_call d s ls =
     (let s1 = s\<lparr>isChangingPassword := True, passwordChangeError := JNull\<rparr> in
      if new_password d \<noteq> confirm_password d then
        (Threw (Error ''New passwords do not match''),
         s1\<lparr>passwordChangeError := JStr ''New passwords do not match'',
            isChangingPassword := False\<rparr>)
      else if length (new_password d) < 6 then
        (Threw (Error ''New password must be at least 6 characters long''),
         s1\<lparr>passwordChangeError := JStr ''New password must be at least 6 characters long'',
            isChangingPassword := False\<rparr>)
      else
        (case (case ls ACCESS_TOKEN_KEY of None \<Rightarrow> [] | Some t \<Rightarrow> t) of
           [] \<Rightarrow>
             (Threw (Error ''You must be logged in to change your password''),
              s1\<lparr>passwordChangeError :=
                    changePassword_errorMessage
                      (Error ''You must be logged in to change your password''),
                 isChangingPassword := False\<rparr>)
         | c # cs \<Rightarrow>
             (Awaiting
                (Post CHANGE_PASSWORD_ENDPOINT
                   [(''old_password'', JStr (old_password d)),
                    (''new_password'', JStr (new_password d))]
                   [(''Content-Type'', ''application/json''),
                    (''Authorization'', ''Bearer '' @ c # cs)]),
              s1)))"

definition changePassword_settle :: "outcome \<Rightarrow> UseAuth \<Rightarrow> (exn + unit) \<times> UseAuth" where
  "changePassword_settle out s =
     (let (res, s') =
        (case out of
           Resolved d \<Rightarrow> (Inr (), s\<lparr>passwordChangeError := JNull\<rparr>)
         | Rejected err \<Rightarrow>
             (Inl err, s\<lparr>passwordChangeError := changePassword_errorMessage err\<rparr>))
      in (res, s'\<lparr>isChangingPassword := False\<rparr>))"

subsection \<open>logout\<close>

definition logout :: "UseAuth \<Rightarrow> storage \<Rightarrow> UseAuth \<times> storage" where
  "logout s ls =
     (s\<lparr>token := JNull, isAuthenticated := False, error := JNull\<rparr>,
      removeItem REFRESH_TOKEN_KEY (removeItem ACCESS_TOKEN_KEY ls))"

section \<open>Observations used by the properties\<close>

text \<open>The list each of the six list hooks holds after its fetch has settled with \<open>out\<close>.\<close>

definition storedLists ::
    "outcome \<Rightarrow> UseTransactions \<Rightarrow> UseServices \<Rightarrow> UseSaccoDirectory \<Rightarrow>
     UsePaymentProviders \<Rightarrow> UseMemberships \<Rightarrow> UseLoans \<Rightarrow> jsval list" where
  "storedLists out s1 s2 s3 s4 s5 s6 =
     [transactions (fetchMyTransactions_settle out s1),
      services (fetchServices_settle out s2),
      saccos (fetchSaccos_settle out s3),
      providers (fetchProviders_settle out s4),
      memberships (fetchMemberships_settle out s5),
      loans (fetchMyLoans_settle out s6)]"

text \<open>The rejection Axios produces for a request whose signal was aborted.\<close>

definition CANCELED :: exn where
  "CANCELED = AxiosError (Some ''ERR_CANCELED'') None True"


section \<open>Properties of the list fetches\<close>

lemmas settle_defs =
  fetchMyTransactions_settle_def fetchServices_settle_def fetchSaccos_settle_def
  fetchProviders_settle_def fetchMemberships_settle_def fetchMyLoans_settle_def

lemmas call_defs =
  fetchMyTransactions_call_def fetchServices_call_def fetchSaccos_call_def
  fetchProviders_call_def fetchMemberships_call_def fetchMyLoans_call_def

lemmas init_defs =
  useTransactions_def useServices_def useSaccoDirectory_def usePaymentProviders_def
  useMemberships_def useLoans_def

lemma listData_array: "isArray d \<Longrightarrow> listData d = Inr d"
  by (simp add: listData_def)

lemma listData_results:
  "\<not> isArray d \<Longrightarrow> truthy (optProp d ''results'') \<Longrightarrow> listData d = Inr (optProp d ''results'')"
  by (cases d) (auto simp: listData_def getProp_def jsOr_def)

lemma listData_empty:
  "\<not> isArray d \<Longrightarrow> \<not> truthy (optProp d ''results'') \<Longrightarrow>
     listData d = Inr (JArr []) \<or> (\<exists>m. listData d = Inl (Error m))"
  by (cases d) (auto simp: listData_def getProp_def jsOr_def typeError_def)

lemma storedLists_ok:
  "tryList out = Inr v \<Longrightarrow> storedLists out s1 s2 s3 s4 s5 s6 = [v, v, v, v, v, v]"
  by (simp add: storedLists_def settle_defs)

lemma storedLists_failed:
  "tryList out = Inl err \<Longrightarrow> \<not> isCanceled err \<Longrightarrow>
     storedLists out s1 s2 s3 s4 s5 s6 = [JArr [], JArr [], JArr [], JArr [], JArr [], JArr []]"
  by (simp add: storedLists_def settle_defs)

text \<open>
  C1, as amended. In each of the six list hooks (\<open>fetchMyTransactions\<close>, \<open>fetchServices\<close>,
  \<open>fetchSaccos\<close>, \<open>fetchProviders\<close>, \<open>fetchMemberships\<close>, \<open>fetchMyLoans\<close>): when the response
  body is an array, that array is stored unchanged; when the body is an object whose
  \<open>results\<close> holds an array, that inner array is stored; more generally, when the body is
  not an array and its \<open>results\<close> is truthy, the value of \<open>results\<close> is stored as it
  is; in every other case (no \<open>results\<close>, a falsy one, a body that is not an object) the
  empty list is stored.
\<close>

theorem fetch_stores_list:
  "(isArray d \<longrightarrow> storedLists (Resolved d) s1 s2 s3 s4 s5 s6 = [d, d, d, d, d, d]) \<and>
   (d = JObj kvs \<and> map_of kvs ''results'' = Some (JArr xs) \<longrightarrow>
      storedLists (Resolved d) s1 s2 s3 s4 s5 s6 =
        [JArr xs, JArr xs, JArr xs, JArr xs, JArr xs, JArr xs]) \<and>
   (\<not> isArray d \<and> truthy (optProp d ''results'') \<longrightarrow>
      storedLists (Resolved d) s1 s2 s3 s4 s5 s6 =
        [optProp d ''results'', optProp d ''results'', optProp d ''results'',
         optProp d ''results'', optProp d ''results'', optProp d ''results'']) \<and>
   (\<not> isArray d \<and> \<not> truthy (optProp d ''results'') \<longrightarrow>
      storedLists (Resolved d) s1 s2 s3 s4 s5 s6 =
        [JArr [], JArr [], JArr [], JArr [], JArr [], JArr []])"
proof (intro conjI impI)
  assume "isArray d"
  then have "tryList (Resolved d) = Inr d"
    by (simp add: tryList_def listData_array)
  then show "storedLists (Resolved d) s1 s2 s3 s4 s5 s6 = [d, d, d, d, d, d]"
    by (rule storedLists_ok)
next
  assume "d = JObj kvs \<and> map_of kvs ''results'' = Some (JArr xs)"
  then have "tryList (Resolved d) = Inr (JArr xs)"
    by (simp add: tryList_def listData_results)
  then show "storedLists (Resolved d) s1 s2 s3 s4 s5 s6 =
        [JArr xs, JArr xs, JArr xs, JArr xs, JArr xs, JArr xs]"
    by (rule storedLists_ok)
next
  assume "\<not> isArray d \<and> truthy (optProp d ''results'')"
  then have "tryList (Resolved d) = Inr (optProp d ''results'')"
    by (simp add: tryList_def listData_results)
  then show "storedLists (Resolved d) s1 s2 s3 s4 s5 s6 =
        [optProp d ''results'', optProp d ''results'', optProp d ''results'',
         optProp d ''results'', optProp d ''results'', optProp d ''results'']"
    by (rule storedLists_ok)
next
  assume a: "\<not> isArray d \<and> \<not> truthy (optProp d ''results'')"
  from a listData_empty [of d] consider
    "tryList (Resolved d) = Inr (JArr [])" | m where "tryList (Resolved d) = Inl (Error m)"
    by (auto simp: tryList_def)
  then show "storedLists (Resolved d) s1 s2 s3 s4 s5 s6 =
        [JArr [], JArr [], JArr [], JArr [], JArr [], JArr []]"
  proof cases
    case 1
    then show ?thesis by (rule storedLists_ok)
  next
    case 2
    then show ?thesis by (rule storedLists_failed) simp
  qed
qed

text \<open>
  The three cases at concrete bodies: a bare array, a paginated envelope, and an
  envelope without \<open>results\<close>.
\<close>

theorem fetch_stores_list_witness:
  "storedLists (Resolved (JArr [JObj [(''id'', JStr ''t1'')]]))
     useTransactions useServices useSaccoDirectory usePaymentProviders useMemberships useLoans =
     replicate 6 (JArr [JObj [(''id'', JStr ''t1'')]]) \<and>
   storedLists (Resolved (JObj [(''count'', JNum True ''1''), (''results'', JArr [JObj [(''id'', JStr ''t1'')]])]))
     useTransactions useServices useSaccoDirectory usePaymentProviders useMemberships useLoans =
     replicate 6 (JArr [JObj [(''id'', JStr ''t1'')]]) \<and>
   storedLists (Resolved (JObj [(''count'', JNum False ''0'')]))
     useTransactions useServices useSaccoDirectory usePaymentProviders useMemberships useLoans =
     replicate 6 (JArr [])"
  using
    fetch_stores_list [where d = "JArr [JObj [(''id'', JStr ''t1'')]]"
      and ?s1.0 = useTransactions and ?s2.0 = useServices and ?s3.0 = useSaccoDirectory
      and ?s4.0 = usePaymentProviders and ?s5.0 = useMemberships and ?s6.0 = useLoans]
    fetch_stores_list [where d = "JObj [(''count'', JNum True ''1''), (''results'', JArr [JObj [(''id'', JStr ''t1'')]])]"
      and kvs = "[(''count'', JNum True ''1''), (''results'', JArr [JObj [(''id'', JStr ''t1'')]])]"
      and xs = "[JObj [(''id'', JStr ''t1'')]]"
      and ?s1.0 = useTransactions and ?s2.0 = useServices and ?s3.0 = useSaccoDirectory
      and ?s4.0 = usePaymentProviders and ?s5.0 = useMemberships and ?s6.0 = useLoans]
    fetch_stores_list [where d = "JObj [(''count'', JNum False ''0'')]"
      and ?s1.0 = useTransactions and ?s2.0 = useServices and ?s3.0 = useSaccoDirectory
      and ?s4.0 = usePaymentProviders and ?s5.0 = useMemberships and ?s6.0 = useLoans]
  by (simp add: numeral_eq_Suc)

text \<open>
  C1 as stated fails: for the body \<open>{results: "abc"}\<close>, which is neither a bare array nor
  an envelope holding an array, \<open>fetchMyTransactions\<close> stores the string, not the empty
  list.
\<close>

theorem fetch_stores_truthy_results_counterexample:
  "transactions (fetchMyTransactions_settle (Resolved (JObj [(''results'', JStr ''abc'')]))
      (fetchMyTransactions_call useTransactions)) = JStr ''abc'' \<and>
   JStr ''abc'' \<noteq> JArr []"
  by (simp add: fetchMyTransactions_settle_def fetchMyTransactions_call_def useTransactions_def
      tryList_def listData_def getProp_def jsOr_def)

text \<open>
  C2 does not hold of the code. When a fetch is called again while the previous request of
  the same hook is pending, the previous request is aborted (after two calls the first
  controller is the aborted one and the second is current) and later settles with
  \<open>CANCELED\<close>. That settlement leaves the list and the error as they are, but the
  \<open>finally\<close> block still runs: it sets \<open>isLoading\<close>, which the second call has just set,
  back to false while the second request is pending.
\<close>

theorem canceled_settlement_resets_isLoading:
  "UseTransactions.aborted (fetchMyTransactions_call (fetchMyTransactions_call useTransactions)) = [0] \<and>
   UseTransactions.abortControllerRef
     (fetchMyTransactions_call (fetchMyTransactions_call useTransactions)) = Some 1 \<and>
   UseTransactions.isLoading (fetchMyTransactions_call s1) \<and>
   fetchMyTransactions_settle (Rejected CANCELED) (fetchMyTransactions_call s1) =
     (fetchMyTransactions_call s1)\<lparr>UseTransactions.isLoading := False\<rparr> \<and>
   UseServices.isLoading (fetchServices_call s2) \<and>
   fetchServices_settle (Rejected CANCELED) (fetchServices_call s2) =
     (fetchServices_call s2)\<lparr>UseServices.isLoading := False\<rparr> \<and>
   UseSaccoDirectory.isLoading (fetchSaccos_call s3) \<and>
   fetchSaccos_settle (Rejected CANCELED) (fetchSaccos_call s3) =
     (fetchSaccos_call s3)\<lparr>UseSaccoDirectory.isLoading := False\<rparr> \<and>
   UsePaymentProviders.isLoading (fetchProviders_call s4) \<and>
   fetchProviders_settle (Rejected CANCELED) (fetchProviders_call s4) =
     (fetchProviders_call s4)\<lparr>UsePaymentProviders.isLoading := False\<rparr> \<and>
   UseMemberships.isLoading (fetchMemberships_call s5) \<and>
   fetchMemberships_settle (Rejected CANCELED) (fetchMemberships_call s5) =
     (fetchMemberships_call s5)\<lparr>UseMemberships.isLoading := False\<rparr> \<and>
   UseLoans.isLoading (fetchMyLoans_call s6) \<and>
   fetchMyLoans_settle (Rejected CANCELED) (fetchMyLoans_call s6) =
     (fetchMyLoans_call s6)\<lparr>UseLoans.isLoading := False\<rparr>"
  by (simp add: settle_defs call_defs tryList_def CANCELED_def useTransactions_def
      abortCurrent_def newAbortController_def)

section \<open>Properties of the HTTP client\<close>

text \<open>
  C3. For every rejected response with status 401, whatever request it answers, the
  response interceptor removes the access token and the refresh token from storage,
  leaves every other key, and rejects with the same error.
\<close>

theorem unauthorized_clears_tokens:
  assumes "status r = 401"
  shows "fst (responseInterceptor_rejected (AxiosError c (Some r) q) ls) =
           Rejected (AxiosError c (Some r) q) \<and>
         snd (responseInterceptor_rejected (AxiosError c (Some r) q) ls) ''accessToken'' = None \<and>
         snd (responseInterceptor_rejected (AxiosError c (Some r) q) ls) ''refreshToken'' = None \<and>
         (\<forall>k. k \<noteq> ''accessToken'' \<and> k \<noteq> ''refreshToken'' \<longrightarrow>
            snd (responseInterceptor_rejected (AxiosError c (Some r) q) ls) k = ls k)"
  using assms by (simp add: responseInterceptor_rejected_def removeItem_def)

theorem unauthorized_clears_tokens_witness:
  "snd (responseInterceptor_rejected
          (AxiosError (Some ''ERR_BAD_REQUEST'')
             (Some (Response 401 ''Unauthorized'' (JObj [(''detail'', JStr ''Token expired'')]))) True)
          [''accessToken'' \<mapsto> ''A'', ''refreshToken'' \<mapsto> ''R'']) ''accessToken'' = None \<and>
   snd (responseInterceptor_rejected
          (AxiosError (Some ''ERR_BAD_REQUEST'')
             (Some (Response 401 ''Unauthorized'' (JObj [(''detail'', JStr ''Token expired'')]))) True)
          [''accessToken'' \<mapsto> ''A'', ''refreshToken'' \<mapsto> ''R'']) ''refreshToken'' = None \<and>
   fst (responseInterceptor_rejected
          (AxiosError (Some ''ERR_BAD_REQUEST'')
             (Some (Response 401 ''Unauthorized'' (JObj [(''detail'', JStr ''Token expired'')]))) True)
          [''accessToken'' \<mapsto> ''A'', ''refreshToken'' \<mapsto> ''R'']) =
     Rejected (AxiosError (Some ''ERR_BAD_REQUEST'')
       (Some (Response 401 ''Unauthorized'' (JObj [(''detail'', JStr ''Token expired'')]))) True)"
proof -
  have h: "status (Response 401 ''Unauthorized'' (JObj [(''detail'', JStr ''Token expired'')])) = 401"
    by simp
  show ?thesis
    using unauthorized_clears_tokens [OF h, of "Some ''ERR_BAD_REQUEST''" True
        "[''accessToken'' \<mapsto> ''A'', ''refreshToken'' \<mapsto> ''R'']"]
    by simp
qed

section \<open>Properties of the session\<close>




lemma login_settle_failed:
  "login_try out = Inl err \<Longrightarrow>
     login_settle out s ls =
       (Inl (newError (login_errorMessage err)),
        s\<lparr>error := login_errorMessage err, isAuthenticated := False, token := JNull,
          isLoading := False\<rparr>,
        removeItem REFRESH_TOKEN_KEY (removeItem ACCESS_TOKEN_KEY ls))"
  by (simp add: login_settle_def)




lemma login_try_failure:
  "out = Rejected e \<or> (out = Resolved d \<and> \<not> truthy (accessTokenOf d)) \<Longrightarrow>
     \<exists>err. login_try out = Inl err"
  by (auto simp: login_try_def extractTokens_def getProp_def)




text \<open>
  C5. When the new password differs from the confirmation, \<open>changePassword\<close> throws
  \<open>New passwords do not match\<close>; when the two agree and the new password has fewer than
  6 characters, it throws \<open>New password must be at least 6 characters long\<close>. In both
  cases the message is recorded, the function stops before any request is made, and no
  network call has happened.
\<close>

theorem changePassword_validation:
  "(new_password d \<noteq> confirm_password d \<longrightarrow>
      changePassword_call d s ls =
        (Threw (Error ''New passwords do not match''),
         s\<lparr>isChangingPassword := False,
           passwordChangeError := JStr ''New passwords do not match''\<rparr>)) \<and>
   (new_password d = confirm_password d \<and> length (new_password d) < 6 \<longrightarrow>
      changePassword_call d s ls =
        (Threw (Error ''New password must be at least 6 characters long''),
         s\<lparr>isChangingPassword := False,
           passwordChangeError := JStr ''New password must be at least 6 characters long''\<rparr>)) \<and>
   (new_password d \<noteq> confirm_password d \<or> length (new_password d) < 6 \<longrightarrow>
      requests (fst (changePassword_call d s ls)) = [])"
  by (simp add: changePassword_call_def Let_def)

text \<open>
  The inputs \<open>new = "abc12", confirm = "abc12"\<close> and \<open>new = "abcdef", confirm = "xyzxyz"\<close>.
\<close>

theorem changePassword_validation_witness:
  "changePassword_call
      \<lparr>old_password = ''secret'', new_password = ''abc12'', confirm_password = ''abc12''\<rparr>
      useAuth [''accessToken'' \<mapsto> ''A''] =
     (Threw (Error ''New password must be at least 6 characters long''),
      useAuth\<lparr>passwordChangeError := JStr ''New password must be at least 6 characters long''\<rparr>) \<and>
   requests (fst (changePassword_call
      \<lparr>old_password = ''secret'', new_password = ''abc12'', confirm_password = ''abc12''\<rparr>
      useAuth [''accessToken'' \<mapsto> ''A''])) = [] \<and>
   changePassword_call
      \<lparr>old_password = ''secret'', new_password = ''abcdef'', confirm_password = ''xyzxyz''\<rparr>
      useAuth [''accessToken'' \<mapsto> ''A''] =
     (Threw (Error ''New passwords do not match''),
      useAuth\<lparr>passwordChangeError := JStr ''New passwords do not match''\<rparr>) \<and>
   requests (fst (changePassword_call
      \<lparr>old_password = ''secret'', new_password = ''abcdef'', confirm_password = ''xyzxyz''\<rparr>
      useAuth [''accessToken'' \<mapsto> ''A''])) = []"
  using
    changePassword_validation
      [of "\<lparr>old_password = ''secret'', new_password = ''abc12'', confirm_password = ''abc12''\<rparr>"
          useAuth "[''accessToken'' \<mapsto> ''A'']"]
    changePassword_validation
      [of "\<lparr>old_password = ''secret'', new_password = ''abcdef'', confirm_password = ''xyzxyz''\<rparr>"
          useAuth "[''accessToken'' \<mapsto> ''A'']"]
  by (simp add: useAuth_def)

text \<open>
  C9. Every failed login, whether the request was rejected (by the server, or for lack of
  a response) or the response held no access token, throws an error, removes the access
  token and the refresh token from storage, and leaves the hook unauthenticated with no
  token in memory.
\<close>

theorem login_failure_clears_session:
  assumes "out = Rejected e \<or> (out = Resolved d \<and> \<not> truthy (accessTokenOf d))"
  shows "(\<exists>m. fst (login_settle out s ls) = Inl (Error m)) \<and>
         snd (snd (login_settle out s ls)) ACCESS_TOKEN_KEY = None \<and>
         snd (snd (login_settle out s ls)) REFRESH_TOKEN_KEY = None \<and>
         \<not> isAuthenticated (fst (snd (login_settle out s ls))) \<and>
         token (fst (snd (login_settle out s ls))) = JNull"
proof -
  from assms obtain err where "login_try out = Inl err"
    using login_try_failure by blast
  then show ?thesis
    by (simp add: login_settle_failed newError_def removeItem_def)
qed

text \<open>
  A session restored from storage on mount is destroyed by a login attempt that the
  server rejects with status 401.
\<close>

theorem login_failure_clears_session_witness:
  "snd (snd (login_settle
      (Rejected (AxiosError (Some ''ERR_BAD_REQUEST'')
          (Some (Response 401 ''Unauthorized'' (JObj [(''detail'', JStr ''Bad password'')]))) True))
      (useAuth_mount [''accessToken'' \<mapsto> ''A'', ''refreshToken'' \<mapsto> ''R''] useAuth)
      [''accessToken'' \<mapsto> ''A'', ''refreshToken'' \<mapsto> ''R''])) ACCESS_TOKEN_KEY = None \<and>
   snd (snd (login_settle
      (Rejected (AxiosError (Some ''ERR_BAD_REQUEST'')
          (Some (Response 401 ''Unauthorized'' (JObj [(''detail'', JStr ''Bad password'')]))) True))
      (useAuth_mount [''accessToken'' \<mapsto> ''A'', ''refreshToken'' \<mapsto> ''R''] useAuth)
      [''accessToken'' \<mapsto> ''A'', ''refreshToken'' \<mapsto> ''R''])) REFRESH_TOKEN_KEY = None \<and>
   isAuthenticated (useAuth_mount [''accessToken'' \<mapsto> ''A'', ''refreshToken'' \<mapsto> ''R''] useAuth) \<and>
   \<not> isAuthenticated (fst (snd (login_settle
      (Rejected (AxiosError (Some ''ERR_BAD_REQUEST'')
          (Some (Response 401 ''Unauthorized'' (JObj [(''detail'', JStr ''Bad password'')]))) True))
      (useAuth_mount [''accessToken'' \<mapsto> ''A'', ''refreshToken'' \<mapsto> ''R''] useAuth)
      [''accessToken'' \<mapsto> ''A'', ''refreshToken'' \<mapsto> ''R''])))"
  using login_failure_clears_session
    [of "Rejected (AxiosError (Some ''ERR_BAD_REQUEST'')
          (Some (Response 401 ''Unauthorized'' (JObj [(''detail'', JStr ''Bad password'')]))) True)"
        "AxiosError (Some ''ERR_BAD_REQUEST'')
          (Some (Response 401 ''Unauthorized'' (JObj [(''detail'', JStr ''Bad password'')]))) True"
        JNull
        "useAuth_mount [''accessToken'' \<mapsto> ''A'', ''refreshToken'' \<mapsto> ''R''] useAuth"
        "[''accessToken'' \<mapsto> ''A'', ''refreshToken'' \<mapsto> ''R'']"]
  by (simp add: useAuth_mount_def useAuth_def ACCESS_TOKEN_KEY_def)

section \<open>Properties of the mutations\<close>

text \<open>
  C6. When the request of \<open>createTransaction\<close>, \<open>applyForLoan\<close>, \<open>createProfile\<close> or
  \<open>updateProfile\<close> is rejected, the rejection is thrown again and the state of the hook
  differs from the state before only in the error field and the loading flag of that
  mutation; the loaded list or record is the one held before. This holds of the
  settlement alone, in whatever state it finds the hook, and of the whole operation from
  its call on.
\<close>

theorem mutation_failure_frame:
  "createTransaction_settle (Rejected err) s1 =
     (Inl err,
      s1\<lparr>UseTransactions.createError :=
            createErrorMessage ''Failed to create transaction.''
              ''Failed to create transaction: '' err,
          UseTransactions.isCreating := False\<rparr>) \<and>
   transactions (snd (createTransaction_settle (Rejected err) s1)) = transactions s1 \<and>
   applyForLoan_settle (Rejected err) s2 =
     (Inl err,
      s2\<lparr>applyError :=
            createErrorMessage ''Failed to apply for loan.'' ''Failed to apply for loan: '' err,
          isApplying := False\<rparr>) \<and>
   loans (snd (applyForLoan_settle (Rejected err) s2)) = loans s2 \<and>
   createProfile_settle (Rejected err) s3 =
     (Inl err,
      s3\<lparr>UseProfile.createError :=
            createErrorMessage ''Failed to create profile.'' ''Failed to create profile: '' err,
          UseProfile.isCreating := False\<rparr>) \<and>
   profile (snd (createProfile_settle (Rejected err) s3)) = profile s3 \<and>
   updateProfile_settle (Rejected err) s3 =
     (Inl err,
      s3\<lparr>updateError := updateProfile_errorMessage err, isUpdating := False\<rparr>,
      [Toast ''Error'' (updateProfile_errorMessage err) ''error'']) \<and>
   profile (fst (snd (updateProfile_settle (Rejected err) s3))) = profile s3 \<and>
   snd (createTransaction_settle (Rejected err) (createTransaction_call s1)) =
     s1\<lparr>UseTransactions.createError :=
           createErrorMessage ''Failed to create transaction.''
             ''Failed to create transaction: '' err,
         UseTransactions.isCreating := False\<rparr> \<and>
   snd (applyForLoan_settle (Rejected err) (applyForLoan_call s2)) =
     s2\<lparr>applyError :=
           createErrorMessage ''Failed to apply for loan.'' ''Failed to apply for loan: '' err,
         isApplying := False\<rparr> \<and>
   snd (createProfile_settle (Rejected err) (createProfile_call s3)) =
     s3\<lparr>UseProfile.createError :=
           createErrorMessage ''Failed to create profile.'' ''Failed to create profile: '' err,
         UseProfile.isCreating := False\<rparr> \<and>
   fst (snd (updateProfile_settle (Rejected err) (updateProfile_call s3))) =
     s3\<lparr>updateError := updateProfile_errorMessage err, isUpdating := False\<rparr>"
  by (simp add: createTransaction_settle_def applyForLoan_settle_def createProfile_settle_def
      updateProfile_settle_def createTransaction_call_def applyForLoan_call_def
      createProfile_call_def updateProfile_call_def)












section \<open>Properties of a failed fetch\<close>

text \<open>
  C8 does not hold of the code. A fetch of the transactions rejected with status 403 and
  the payload \<open>{detail: "You do not have permission to perform this action."}\<close> records
  the text made of the status text: \<open>fetchMyTransactions\<close> reads \<open>message\<close> and \<open>error\<close>
  only, as do \<open>fetchSaccos\<close>, \<open>fetchProviders\<close> and \<open>fetchMemberships\<close>. \<open>fetchProfile\<close>,
  given the same rejection, records the \<open>detail\<close>.
\<close>

theorem fetch_ignores_detail:
  "UseTransactions.error (fetchMyTransactions_settle
      (Rejected (AxiosError (Some ''ERR_BAD_REQUEST'')
         (Some (Response 403 ''Forbidden''
            (JObj [(''detail'', JStr ''You do not have permission to perform this action.'')])))
         True))
      (fetchMyTransactions_call useTransactions)) =
     JStr ''Failed to fetch transactions: Forbidden'' \<and>
   UseProfile.error (fetchProfile_settle
      (Rejected (AxiosError (Some ''ERR_BAD_REQUEST'')
         (Some (Response 403 ''Forbidden''
            (JObj [(''detail'', JStr ''You do not have permission to perform this action.'')])))
         True))
      (fetchProfile_call useProfile)) =
     JStr ''You do not have permission to perform this action.''"
  by (simp add: fetchMyTransactions_settle_def fetchMyTransactions_call_def useTransactions_def
      tryList_def fetchErrorMessage_def jsOr_def fetchProfile_settle_def fetchProfile_call_def
      useProfile_def fetchProfile_errorMessage_def)

text \<open>
  C10. Whenever the \<open>try\<close> block of a list fetch fails with anything but a cancellation,
  each of the six hooks stores the empty list, whatever list it held, and records the
  failure: the four hooks with an \<open>error\<close> text record the message built from the failure,
  \<open>useServices\<close> and \<open>useLoans\<close> set \<open>isError\<close>.
\<close>

theorem failed_fetch_resets_list:
  assumes "tryList out = Inl err" and "\<not> isCanceled err"
  shows
   "storedLists out s1 s2 s3 s4 s5 s6 = replicate 6 (JArr []) \<and>
    UseTransactions.error (fetchMyTransactions_settle out s1) =
      fetchErrorMessage ''Failed to fetch transactions.'' ''Failed to fetch transactions: '' err \<and>
    UseServices.isError (fetchServices_settle out s2) \<and>
    UseSaccoDirectory.error (fetchSaccos_settle out s3) =
      fetchErrorMessage ''Failed to fetch sacco directory.'' ''Failed to fetch saccos: '' err \<and>
    UsePaymentProviders.error (fetchProviders_settle out s4) =
      fetchErrorMessage ''Failed to fetch payment providers.'' ''Failed to fetch providers: '' err \<and>
    UseMemberships.error (fetchMemberships_settle out s5) =
      fetchErrorMessage ''Failed to fetch memberships.'' ''Failed to fetch memberships: '' err \<and>
    UseLoans.isError (fetchMyLoans_settle out s6)"
  using assms by (simp add: storedLists_def settle_defs numeral_eq_Suc)

text \<open>
  Each hook first loads a list of one record, then a refetch fails for lack of a response.
\<close>

theorem failed_fetch_resets_list_witness:
  "storedLists (Resolved (JArr [JObj [(''id'', JStr ''t1'')]]))
      useTransactions useServices useSaccoDirectory usePaymentProviders useMemberships useLoans =
     replicate 6 (JArr [JObj [(''id'', JStr ''t1'')]]) \<and>
   storedLists (Rejected (AxiosError (Some ''ERR_NETWORK'') None True))
      (fetchMyTransactions_settle (Resolved (JArr [JObj [(''id'', JStr ''t1'')]])) useTransactions)
      (fetchServices_settle (Resolved (JArr [JObj [(''id'', JStr ''t1'')]])) useServices)
      (fetchSaccos_settle (Resolved (JArr [JObj [(''id'', JStr ''t1'')]])) useSaccoDirectory)
      (fetchProviders_settle (Resolved (JArr [JObj [(''id'', JStr ''t1'')]])) usePaymentProviders)
      (fetchMemberships_settle (Resolved (JArr [JObj [(''id'', JStr ''t1'')]])) useMemberships)
      (fetchMyLoans_settle (Resolved (JArr [JObj [(''id'', JStr ''t1'')]])) useLoans) =
     replicate 6 (JArr []) \<and>
   UseTransactions.error (fetchMyTransactions_settle
      (Rejected (AxiosError (Some ''ERR_NETWORK'') None True))
      (fetchMyTransactions_settle (Resolved (JArr [JObj [(''id'', JStr ''t1'')]])) useTransactions)) =
     JStr ''Network error. Please check your connection.''"
proof -
  have t: "tryList (Rejected (AxiosError (Some ''ERR_NETWORK'') None True)) =
             Inl (AxiosError (Some ''ERR_NETWORK'') None True)"
    by (simp add: tryList_def)
  have c: "\<not> isCanceled (AxiosError (Some ''ERR_NETWORK'') None True)"
    by simp
  have ok: "storedLists (Resolved (JArr [JObj [(''id'', JStr ''t1'')]]))
      useTransactions useServices useSaccoDirectory usePaymentProviders useMemberships useLoans =
     replicate 6 (JArr [JObj [(''id'', JStr ''t1'')]])"
    by (simp add: storedLists_def settle_defs tryList_def listData_def numeral_eq_Suc)
  show ?thesis
    using failed_fetch_resets_list [OF t c,
      of "fetchMyTransactions_settle (Resolved (JArr [JObj [(''id'', JStr ''t1'')]])) useTransactions"
         "fetchServices_settle (Resolved (JArr [JObj [(''id'', JStr ''t1'')]])) useServices"
         "fetchSaccos_settle (Resolved (JArr [JObj [(''id'', JStr ''t1'')]])) useSaccoDirectory"
         "fetchProviders_settle (Resolved (JArr [JObj [(''id'', JStr ''t1'')]])) usePaymentProviders"
         "fetchMemberships_settle (Resolved (JArr [JObj [(''id'', JStr ''t1'')]])) useMemberships"
         "fetchMyLoans_settle (Resolved (JArr [JObj [(''id'', JStr ''t1'')]])) useLoans"] ok
    by (simp add: fetchErrorMessage_def NETWORK_ERROR_def)
qed

end
